theory Spec2Isabelle
  imports Complex_Main
begin

section \<open>Text\<close>

text \<open>
  A Python \<open>str\<close> is a sequence of Unicode code points. A code point is a natural number
  here, so that the line boundaries and white space beyond Latin-1 (U+2028, U+3000, ...)
  are part of the model. \<open>py\<close> turns an ASCII literal into such a text.
\<close>

type_synonym str = "nat list"

definition py :: "string \<Rightarrow> str" where
  "py s = map of_char s"

definition LF :: nat where "LF = 10"
definition CR :: nat where "CR = 13"

text \<open>The single-line comment marker \<open>#\<close> and the two triple-quote delimiters.\<close>

definition hash_lit :: str where
  "hash_lit = [35]"

definition triple_single :: str where
  "triple_single = [39, 39, 39]"

definition triple_double :: str where
  "triple_double = [34, 34, 34]"

text \<open>\<open>str.isspace\<close> of one code point: the characters \<open>str.strip()\<close> removes.\<close>

definition isspace :: "nat \<Rightarrow> bool" where
  "isspace c = ((9 \<le> c \<and> c \<le> 13) \<or> (28 \<le> c \<and> c \<le> 32) \<or> c = 133 \<or> c = 160
     \<or> c = 5760 \<or> (8192 \<le> c \<and> c \<le> 8202) \<or> c = 8232 \<or> c = 8233 \<or> c = 8239
     \<or> c = 8287 \<or> c = 12288)"

text \<open>The line boundaries of \<open>str.splitlines\<close>: LF, VT, FF, CR, FS, GS, RS, NEL, LS, PS.\<close>

definition is_linebreak :: "nat \<Rightarrow> bool" where
  "is_linebreak c = ((10 \<le> c \<and> c \<le> 13) \<or> (28 \<le> c \<and> c \<le> 30) \<or> c = 133
     \<or> c = 8232 \<or> c = 8233)"

definition strip :: "str \<Rightarrow> str" where
  "strip s = rev (dropWhile isspace (rev (dropWhile isspace s)))"

definition startswith :: "str \<Rightarrow> str \<Rightarrow> bool" where
  "startswith s pre = (take (length pre) s = pre)"

definition endswith :: "str \<Rightarrow> str \<Rightarrow> bool" where
  "endswith s suf = (length suf \<le> length s \<and> drop (length s - length suf) s = suf)"

text \<open>
  \<open>str.splitlines()\<close>: the text is cut at every line boundary, CR LF counting as one;
  the boundary is dropped. \<open>cur\<close> is the line read so far. At the end of the text an
  unterminated rest is a last line, and no line is added after a final boundary.
\<close>

fun splitlines_from :: "str \<Rightarrow> str \<Rightarrow> str list" where
  "splitlines_from cur [] = (if cur = [] then [] else [cur])"
| "splitlines_from cur (c # cs) =
     (if is_linebreak c then
        cur # (case cs of
                 [] \<Rightarrow> splitlines_from [] cs
               | d # cs' \<Rightarrow> if c = CR \<and> d = LF then splitlines_from [] cs'
                            else splitlines_from [] cs)
      else splitlines_from (cur @ [c]) cs)"

definition splitlines :: "str \<Rightarrow> str list" where
  "splitlines s = splitlines_from [] s"

text \<open>
  Reading in text mode with the default \<open>newline=None\<close> translates CR LF and a lone CR
  into LF before the program sees the text.
\<close>

fun translate_newlines :: "str \<Rightarrow> str" where
  "translate_newlines [] = []"
| "translate_newlines (c # cs) =
     (if c = CR then
        LF # (case cs of
                [] \<Rightarrow> translate_newlines cs
              | d # cs' \<Rightarrow> if d = LF then translate_newlines cs' else translate_newlines cs)
      else c # translate_newlines cs)"

section \<open>Paths and the file system\<close>

text \<open>
  A path is the list of its components (a pure POSIX path: two paths are equal when their
  components are). \<open>path.name\<close> is the last component; \<open>path.suffix\<close> is the part of the
  name from its last dot on, when that dot is neither the first nor the last character.
\<close>

type_synonym path = "str list"





datatype error =
    FileNotFoundError path
  | IsADirectoryError path
  | NotADirectoryError path
  | PermissionError path
  | UnicodeDecodeError path
  | CommentNotClosedError path
  | ValueError path
  | AssertionError
  | RecursionError
  | ZeroDivisionError
  | OverflowError
  | TypeError "string list"

text \<open>
  What a path resolves to. A regular file is unreadable (\<open>open\<close> raises
  \<open>PermissionError\<close>), or its bytes do not decode (\<open>read\<close> raises
  \<open>UnicodeDecodeError\<close>), or it holds a decoded text. A directory holds the names of its
  entries in listing order, or cannot be listed. A path that resolves to nothing does not
  exist (a name listed in a directory may be such a path: a dangling link). Sockets, pipes
  and devices are left out.
\<close>

datatype contents = NoPermission | Undecodable | Text str

datatype node =
    RegularFile contents
  | Directory "str list option"

type_synonym fs = "path \<Rightarrow> node option"

definition exists_path :: "fs \<Rightarrow> path \<Rightarrow> bool" where
  "exists_path fs p = (fs p \<noteq> None)"




text \<open>\<open>with open(file, "r") as f: lines = f.read().splitlines()\<close>\<close>

definition read_lines :: "fs \<Rightarrow> path \<Rightarrow> error + str list" where
  "read_lines fs f =
     (case fs f of
        None \<Rightarrow> Inl (FileNotFoundError f)
      | Some (Directory _) \<Rightarrow> Inl (IsADirectoryError f)
      | Some (RegularFile NoPermission) \<Rightarrow> Inl (PermissionError f)
      | Some (RegularFile Undecodable) \<Rightarrow> Inl (UnicodeDecodeError f)
      | Some (RegularFile (Text s)) \<Rightarrow> Inr (splitlines (translate_newlines s)))"

section \<open>Settings, file data and the line counter\<close>

datatype Detail = minimal | basic | full

record Settings =
  path :: path
  ignoreNames :: "str list"
  ignorePaths :: "path list"
  recursive :: bool
  outputDetail :: Detail

record FileData =
  "file" :: path
  totalLines :: int
  commentLines :: int
  codeLines :: int
  blankLines :: int

record LineCounter =
  settings :: Settings
  fileDatas :: "FileData list"

text \<open>
  The body of the loop over the lines in \<open>count_file\<close>. The state is the file data and the
  flag \<open>inMultiLineComment\<close>.
\<close>

definition loop_body :: "FileData \<times> bool \<Rightarrow> str \<Rightarrow> FileData \<times> bool" where
  "loop_body st line =
     (let fileData = (fst st)\<lparr>totalLines := totalLines (fst st) + 1\<rparr>;
          inMultiLineComment = snd st;
          strippedLine = strip line
      in if startswith strippedLine hash_lit then
           (fileData\<lparr>commentLines := commentLines fileData + 1\<rparr>, inMultiLineComment)
         else if startswith strippedLine triple_single \<or> startswith strippedLine triple_double then
           (if endswith strippedLine triple_single \<or> endswith strippedLine triple_double then
              (fileData\<lparr>commentLines := commentLines fileData + 1\<rparr>, inMultiLineComment)
            else
              (fileData\<lparr>commentLines := commentLines fileData + 1\<rparr>, \<not> inMultiLineComment))
         else if inMultiLineComment then
           (fileData\<lparr>commentLines := commentLines fileData + 1\<rparr>, inMultiLineComment)
         else if strippedLine = [] then
           (fileData\<lparr>blankLines := blankLines fileData + 1\<rparr>, inMultiLineComment)
         else
           (fileData\<lparr>codeLines := codeLines fileData + 1\<rparr>, inMultiLineComment))"

definition new_file_data :: "path \<Rightarrow> FileData" where
  "new_file_data f = \<lparr>file = f, totalLines = 0, commentLines = 0, codeLines = 0, blankLines = 0\<rparr>"

definition count_loop :: "path \<Rightarrow> str list \<Rightarrow> FileData \<times> bool" where
  "count_loop f lines = foldl loop_body (new_file_data f, False) lines"

text \<open>
  \<open>LineCounter.count_file\<close>. The result is the exception raised, if any, and the line
  counter as the call leaves it: the record is appended only on the normal return.
\<close>

definition count_file :: "fs \<Rightarrow> path \<Rightarrow> LineCounter \<Rightarrow> error option \<times> LineCounter" where
  "count_file fs f lc =
     (case read_lines fs f of
        Inl e \<Rightarrow> (Some e, lc)
      | Inr lines \<Rightarrow>
          (let fileData = fst (count_loop f lines);
               inMultiLineComment = snd (count_loop f lines)
           in if inMultiLineComment then (Some (CommentNotClosedError f), lc)
              else if totalLines fileData \<noteq> commentLines fileData + codeLines fileData + blankLines fileData
                then (Some AssertionError, lc)
              else (None, lc\<lparr>fileDatas := fileDatas lc @ [fileData]\<rparr>)))"

text \<open>
  \<open>LineCounter.count_files\<close>: the loop stops at the first path that does not exist and at
  the first exception of \<open>count_file\<close>. The line counter is returned as the call leaves it.
\<close>

fun count_files :: "fs \<Rightarrow> path list \<Rightarrow> LineCounter \<Rightarrow> error option \<times> LineCounter" where
  "count_files fs [] lc = (None, lc)"
| "count_files fs (f # files) lc =
     (if \<not> exists_path fs f then (Some (FileNotFoundError f), lc)
      else (case count_file fs f lc of
              (Some e, lc') \<Rightarrow> (Some e, lc')
            | (None, lc') \<Rightarrow> count_files fs files lc'))"

section \<open>File discovery\<close>



section \<open>Aggregation\<close>

text \<open>
  The true division of two Python integers, \<open>a / b\<close>. A zero divisor raises
  \<open>ZeroDivisionError\<close>. Otherwise the result is the quotient rounded to the nearest
  double, and \<open>OverflowError\<close> is raised when that is out of range, which is when the
  magnitude of the quotient reaches \<open>2 ^ 1024 - 2 ^ 970\<close>. A float is a real number here:
  the model gives the exact quotient where Python gives the nearest double.
\<close>

definition float_overflow :: real where
  "float_overflow = 2 ^ 1024 - 2 ^ 970"

definition py_truediv :: "int \<Rightarrow> int \<Rightarrow> error + real" where
  "py_truediv a b =
     (if b = 0 then Inl ZeroDivisionError
      else if float_overflow \<le> \<bar>real_of_int a / real_of_int b\<bar> then Inl OverflowError
      else Inr (real_of_int a / real_of_int b))"

text \<open>\<open>_zero_safe_division\<close>\<close>

definition zero_safe_division :: "int \<Rightarrow> int \<Rightarrow> error + real" where
  "zero_safe_division numerator denominator =
     (if denominator = 0 then Inr 0 else py_truediv numerator denominator)"

text \<open>
  \<open>_zero_safe_division(a, b) * 100\<close>, as the format strings of \<open>print_file_data\<close> compute
  it. The product of two floats raises nothing.
\<close>

definition ratio_percent :: "int \<Rightarrow> int \<Rightarrow> error + real" where
  "ratio_percent a b =
     (case zero_safe_division a b of Inl e \<Rightarrow> Inl e | Inr q \<Rightarrow> Inr (q * 100))"

record Summary =
  sumTotalLines :: int
  sumCommentLines :: int
  sumCodeLines :: int
  sumBlankLines :: int
  blankCodeRatio :: real
  commentCodeRatio :: real

text \<open>
  The numbers \<open>print_file_data\<close> prints for one file, in the order it computes them: the
  four counts, the blank-code ratio, the comment-code ratio.
\<close>

definition file_summary :: "FileData \<Rightarrow> error + Summary" where
  "file_summary fd =
     (case ratio_percent (blankLines fd) (codeLines fd) of
        Inl e \<Rightarrow> Inl e
      | Inr bc \<Rightarrow>
          (case ratio_percent (commentLines fd) (codeLines fd) of
             Inl e \<Rightarrow> Inl e
           | Inr cc \<Rightarrow>
               Inr \<lparr>sumTotalLines = totalLines fd, sumCommentLines = commentLines fd,
                    sumCodeLines = codeLines fd, sumBlankLines = blankLines fd,
                    blankCodeRatio = bc, commentCodeRatio = cc\<rparr>))"

text \<open>The loop over the files in \<open>print_file_data\<close>; it stops at the first exception.\<close>

fun print_files :: "FileData list \<Rightarrow> error + (path \<times> Summary) list" where
  "print_files [] = Inr []"
| "print_files (fd # rest) =
     (case file_summary fd of
        Inl e \<Rightarrow> Inl e
      | Inr s \<Rightarrow>
          (case print_files rest of
             Inl e \<Rightarrow> Inl e
           | Inr later \<Rightarrow> Inr ((file fd, s) # later)))"

text \<open>The numbers printed under "Total:": the four sums, then the two ratios of the sums.\<close>

definition total_summary :: "FileData list \<Rightarrow> error + Summary" where
  "total_summary fds =
     (let totalLines' = sum_list (map totalLines fds);
          commentLines' = sum_list (map commentLines fds);
          codeLines' = sum_list (map codeLines fds);
          blankLines' = sum_list (map blankLines fds)
      in case ratio_percent blankLines' codeLines' of
           Inl e \<Rightarrow> Inl e
         | Inr bc \<Rightarrow>
             (case ratio_percent commentLines' codeLines' of
                Inl e \<Rightarrow> Inl e
              | Inr cc \<Rightarrow>
                  Inr \<lparr>sumTotalLines = totalLines', sumCommentLines = commentLines',
                       sumCodeLines = codeLines', sumBlankLines = blankLines',
                       blankCodeRatio = bc, commentCodeRatio = cc\<rparr>))"

text \<open>
  \<open>LineCounter.print_file_data\<close>: the exception raised, or what was printed. For an empty
  collection it prints that there are no files and returns before anything is summed.
  What was printed before an exception is not kept.
\<close>

datatype printed =
    NoFilesToPrint
  | FileDataPrinted "(path \<times> Summary) list" Summary

definition print_file_data :: "LineCounter \<Rightarrow> error + printed" where
  "print_file_data lc =
     (if length (fileDatas lc) = 0 then Inr NoFilesToPrint
      else (case print_files (fileDatas lc) of
              Inl e \<Rightarrow> Inl e
            | Inr per_file \<Rightarrow>
                (case total_summary (fileDatas lc) of
                   Inl e \<Rightarrow> Inl e
                 | Inr totals \<Rightarrow> Inr (FileDataPrinted per_file totals))))"

section \<open>Default settings\<close>

text \<open>
  The \<open>__init__\<close> that \<open>@dataclass\<close> generates binds its positional arguments to the
  fields in their order of declaration. No field of \<open>Settings\<close> has a default, so a call
  with fewer arguments raises \<open>TypeError\<close> naming the fields left without a value, and a
  call with more raises \<open>TypeError\<close> too. The arguments are not checked against the
  annotations.
\<close>

datatype pyarg =
    PathArg path
  | StrListArg "str list"
  | PathListArg "path list"
  | BoolArg bool
  | DetailArg Detail

definition Settings_fields :: "string list" where
  "Settings_fields = [''path'', ''ignoreNames'', ''ignorePaths'', ''recursive'', ''outputDetail'']"

definition dataclass_init :: "string list \<Rightarrow> pyarg list \<Rightarrow> error + (string \<times> pyarg) list" where
  "dataclass_init field_names args =
     (if length field_names < length args then Inl (TypeError [])
      else if length args < length field_names then
        Inl (TypeError (drop (length args) field_names))
      else Inr (zip field_names args))"

text \<open>
  \<open>get_arbitrary_settings\<close>. The arguments of a call are evaluated before the call, so
  \<open>os.getcwd()\<close> runs first. \<open>getcwd\<close> is its outcome: the path of the working directory,
  or the error it raises (\<open>FileNotFoundError\<close> when the working directory has been
  removed), which then leaves \<open>get_arbitrary_settings\<close> before the constructor is reached.
\<close>

definition get_arbitrary_settings :: "error + path \<Rightarrow> error + (string \<times> pyarg) list" where
  "get_arbitrary_settings getcwd =
     (case getcwd of
        Inl e \<Rightarrow> Inl e
      | Inr cwd \<Rightarrow>
          dataclass_init Settings_fields
            [PathArg cwd,
             StrListArg [py ''venv'', py ''.git'', py ''.env'', py ''.vscode'', py ''.idea'',
                         py ''__pycache__''],
             PathListArg [],
             BoolArg True])"

fun is_TypeError :: "error \<Rightarrow> bool" where
  "is_TypeError (TypeError _) = True"
| "is_TypeError _ = False"

section \<open>The classification as the specification words it\<close>

datatype kind = Comment | Blank | Code

text \<open>
  The five steps of the specification, on the stripped line: the class of the line and the
  state after it.
\<close>

definition spec_classify :: "bool \<Rightarrow> str \<Rightarrow> kind \<times> bool" where
  "spec_classify inMulti s =
     (if startswith s hash_lit then (Comment, inMulti)
      else if startswith s triple_single \<or> startswith s triple_double then
        (if endswith s triple_single \<or> endswith s triple_double then (Comment, inMulti)
         else (Comment, \<not> inMulti))
      else if inMulti then (Comment, inMulti)
      else if s = [] then (Blank, inMulti)
      else (Code, inMulti))"

text \<open>One line of class \<open>k\<close> counted: the total and the counter of \<open>k\<close> grow by one.\<close>

fun spec_tally :: "kind \<Rightarrow> FileData \<Rightarrow> FileData" where
  "spec_tally Comment fd =
     fd\<lparr>totalLines := totalLines fd + 1, commentLines := commentLines fd + 1\<rparr>"
| "spec_tally Blank fd =
     fd\<lparr>totalLines := totalLines fd + 1, blankLines := blankLines fd + 1\<rparr>"
| "spec_tally Code fd =
     fd\<lparr>totalLines := totalLines fd + 1, codeLines := codeLines fd + 1\<rparr>"

text \<open>
  A line terminator is CR LF or one line boundary. A text that ends in a line terminator
  is a sequence of terminated lines: each a run of characters that are no line boundary,
  followed by its terminator. A CR directly followed by an empty line ended by LF would
  be read as the single terminator CR LF, so such a sequence is not a way to write a text.
\<close>

definition is_terminator :: "str \<Rightarrow> bool" where
  "is_terminator t = (t = [CR, LF] \<or> (length t = 1 \<and> is_linebreak (hd t)))"

fun terminated_lines :: "(str \<times> str) list \<Rightarrow> bool" where
  "terminated_lines [] = True"
| "terminated_lines ((l, t) # rest) =
     (list_all (\<lambda>c. \<not> is_linebreak c) l \<and> is_terminator t
      \<and> \<not> (t = [CR] \<and> (case rest of [] \<Rightarrow> False | (l', t') # _ \<Rightarrow> l' = [] \<and> t' = [LF]))
      \<and> terminated_lines rest)"

definition join_lines :: "(str \<times> str) list \<Rightarrow> str" where
  "join_lines lts = concat (map (\<lambda>(l, t). l @ t) lts)"

section \<open>Example files\<close>

definition proj :: path where
  "proj = [py ''proj'']"

definition a_py :: path where
  "a_py = [py ''proj'', py ''a.py'']"

definition b_py :: path where
  "b_py = [py ''proj'', py ''b.py'']"

definition new_counter :: LineCounter where
  "new_counter =
     \<lparr>settings = \<lparr>path = proj, ignoreNames = [], ignorePaths = [], recursive = True,
                   outputDetail = basic\<rparr>,
      fileDatas = []\<rparr>"

text \<open>A directory with one file of four lines: code, two blank lines, code.\<close>

definition fs_code :: fs where
  "fs_code =
     [proj \<mapsto> Directory (Some [py ''a.py'']),
      a_py \<mapsto> RegularFile (Text (py ''x = 1'' @ [LF, LF] @ py ''   '' @ [LF] @ py ''y = 2'' @ [LF]))]"

text \<open>A file of three lines: a bare triple quote, the word \<open>inside\<close>, a bare triple quote.\<close>

definition fs_triple :: fs where
  "fs_triple =
     [proj \<mapsto> Directory (Some [py ''a.py'']),
      a_py \<mapsto> RegularFile (Text (triple_single @ [LF] @ py ''inside'' @ [LF] @ triple_single @ [LF]))]"

text \<open>A file of a single line: the word \<open>docstring\<close> between two triple quotes.\<close>

definition docstring_line :: str where
  "docstring_line = triple_single @ py ''docstring'' @ triple_single"

definition fs_docstring :: fs where
  "fs_docstring =
     [proj \<mapsto> Directory (Some [py ''a.py'']),
      a_py \<mapsto> RegularFile (Text docstring_line)]"

text \<open>A file whose first line opens a block that no later line closes.\<close>

definition fs_open :: fs where
  "fs_open =
     [proj \<mapsto> Directory (Some [py ''a.py'']),
      a_py \<mapsto> RegularFile (Text (triple_single @ py ''abc'' @ [LF] @ py ''foo'' @ [LF]))]"

text \<open>
  A batch: \<open>a.py\<close> is the file of four lines above, \<open>b.py\<close> does not exist, \<open>c.py\<close>
  opens a block that is never closed.
\<close>

definition c_py :: path where
  "c_py = [py ''proj'', py ''c.py'']"

definition fs_batch :: fs where
  "fs_batch =
     [proj \<mapsto> Directory (Some [py ''a.py'', py ''c.py'']),
      a_py \<mapsto> RegularFile (Text (py ''x = 1'' @ [LF, LF] @ py ''   '' @ [LF] @ py ''y = 2'' @ [LF])),
      c_py \<mapsto> RegularFile (Text (triple_single @ py ''abc'' @ [LF] @ py ''foo'' @ [LF]))]"

definition a_py_record :: FileData where
  "a_py_record =
     \<lparr>file = a_py, totalLines = 4, commentLines = 0, codeLines = 2, blankLines = 2\<rparr>"




text \<open>Three terminated lines: \<open>a\<close> ended by LF, an empty line ended by CR LF, \<open>b\<close> ended by CR.\<close>

definition three_lines :: "(str \<times> str) list" where
  "three_lines = [(py ''a'', [LF]), ([], [CR, LF]), (py ''b'', [CR])]"

definition fs_lines :: fs where
  "fs_lines = [a_py \<mapsto> RegularFile (Text (join_lines three_lines))]"

text \<open>The record of a file of one comment line and no code.\<close>

definition docstring_record :: FileData where
  "docstring_record =
     \<lparr>file = a_py, totalLines = 1, commentLines = 1, codeLines = 0, blankLines = 0\<rparr>"

section \<open>The loop over the lines\<close>

lemmas text_defs =
  py_def LF_def CR_def hash_lit_def triple_single_def triple_double_def isspace_def
  is_linebreak_def strip_def startswith_def endswith_def splitlines_def

lemmas path_defs = proj_def a_py_def b_py_def

lemma loop_body_total: "totalLines (fst (loop_body st l)) = totalLines (fst st) + 1"
  by (simp add: loop_body_def Let_def)

lemma loop_body_file: "file (fst (loop_body st l)) = file (fst st)"
  by (simp add: loop_body_def Let_def)

lemma loop_body_balanced:
  "totalLines (fst st) = commentLines (fst st) + codeLines (fst st) + blankLines (fst st) \<Longrightarrow>
   totalLines (fst (loop_body st l))
     = commentLines (fst (loop_body st l)) + codeLines (fst (loop_body st l))
       + blankLines (fst (loop_body st l))"
  by (simp add: loop_body_def Let_def)

lemma loop_body_nonneg:
  "0 \<le> commentLines (fst st) \<and> 0 \<le> codeLines (fst st) \<and> 0 \<le> blankLines (fst st) \<Longrightarrow>
   0 \<le> commentLines (fst (loop_body st l)) \<and> 0 \<le> codeLines (fst (loop_body st l))
     \<and> 0 \<le> blankLines (fst (loop_body st l))"
  by (simp add: loop_body_def Let_def)

lemma foldl_loop_body_total:
  "totalLines (fst (foldl loop_body st ls)) = totalLines (fst st) + int (length ls)"
  by (induction ls arbitrary: st) (simp_all add: loop_body_total)

lemma foldl_loop_body_file: "file (fst (foldl loop_body st ls)) = file (fst st)"
  by (induction ls arbitrary: st) (simp_all add: loop_body_file)

lemma foldl_loop_body_balanced:
  "totalLines (fst st) = commentLines (fst st) + codeLines (fst st) + blankLines (fst st) \<Longrightarrow>
   totalLines (fst (foldl loop_body st ls))
     = commentLines (fst (foldl loop_body st ls)) + codeLines (fst (foldl loop_body st ls))
       + blankLines (fst (foldl loop_body st ls))"
proof (induction ls arbitrary: st)
  case Nil
  then show ?case by simp
next
  case (Cons l ls)
  from Cons.IH [OF loop_body_balanced [OF Cons.prems]] show ?case by simp
qed

lemma foldl_loop_body_nonneg:
  "0 \<le> commentLines (fst st) \<and> 0 \<le> codeLines (fst st) \<and> 0 \<le> blankLines (fst st) \<Longrightarrow>
   0 \<le> commentLines (fst (foldl loop_body st ls))
     \<and> 0 \<le> codeLines (fst (foldl loop_body st ls))
     \<and> 0 \<le> blankLines (fst (foldl loop_body st ls))"
proof (induction ls arbitrary: st)
  case Nil
  then show ?case by simp
next
  case (Cons l ls)
  from Cons.IH [OF loop_body_nonneg [OF Cons.prems]] show ?case by simp
qed

lemma count_loop_balanced:
  "totalLines (fst (count_loop f ls))
     = commentLines (fst (count_loop f ls)) + codeLines (fst (count_loop f ls))
       + blankLines (fst (count_loop f ls))"
  unfolding count_loop_def
  by (rule foldl_loop_body_balanced) (simp add: new_file_data_def)

lemma count_loop_nonneg:
  "0 \<le> commentLines (fst (count_loop f ls)) \<and> 0 \<le> codeLines (fst (count_loop f ls))
     \<and> 0 \<le> blankLines (fst (count_loop f ls))"
  unfolding count_loop_def
  by (rule foldl_loop_body_nonneg) (simp add: new_file_data_def)

lemma count_loop_total: "totalLines (fst (count_loop f ls)) = int (length ls)"
  by (simp add: count_loop_def foldl_loop_body_total new_file_data_def)

lemma count_loop_file: "file (fst (count_loop f ls)) = f"
  by (simp add: count_loop_def foldl_loop_body_file new_file_data_def)

section \<open>Counting one file\<close>

text \<open>
  The loop establishes what the \<open>assert\<close> of \<open>count_file\<close> checks, so the call ends in one
  of three ways: the read fails, the block is left open, or the record is appended.
\<close>

lemma count_file_result:
  "count_file fs f lc =
     (case read_lines fs f of
        Inl e \<Rightarrow> (Some e, lc)
      | Inr ls \<Rightarrow>
          if snd (count_loop f ls) then (Some (CommentNotClosedError f), lc)
          else (None, lc\<lparr>fileDatas := fileDatas lc @ [fst (count_loop f ls)]\<rparr>))"
  by (simp add: count_file_def Let_def count_loop_balanced split: sum.splits)

lemma read_lines_error:
  "read_lines fs f = Inl e \<Longrightarrow>
   e \<in> {FileNotFoundError f, IsADirectoryError f, PermissionError f, UnicodeDecodeError f}"
  by (auto simp: read_lines_def split: option.splits node.splits contents.splits)

lemma read_lines_text:
  "fs f = Some (RegularFile (Text s)) \<Longrightarrow> read_lines fs f = Inr (splitlines (translate_newlines s))"
  by (simp add: read_lines_def)

lemma count_file_assert_holds: "fst (count_file fs f lc) \<noteq> Some AssertionError"
  using read_lines_error [of fs f]
  by (auto simp: count_file_result split: sum.splits)

lemma read_lines_fs_code:
  "read_lines fs_code a_py = Inr [py ''x = 1'', [], py ''   '', py ''y = 2'']"
  by (simp add: read_lines_def fs_code_def path_defs text_defs)

lemma count_loop_fs_code:
  "count_loop a_py [py ''x = 1'', [], py ''   '', py ''y = 2''] =
     (\<lparr>file = a_py, totalLines = 4, commentLines = 0, codeLines = 2, blankLines = 2\<rparr>, False)"
  by (simp add: count_loop_def loop_body_def new_file_data_def text_defs)

text \<open>
  C1. Whenever \<open>count_file\<close> returns without raising, it has appended one record for the
  file, whose total is the sum of its comment, code and blank lines, and whose four counts
  are not negative.
\<close>

theorem count_file_record_balanced:
  assumes "count_file fs f lc = (None, lc')"
  shows "\<exists>r. lc' = lc\<lparr>fileDatas := fileDatas lc @ [r]\<rparr> \<and> file r = f
           \<and> totalLines r = commentLines r + codeLines r + blankLines r
           \<and> 0 \<le> totalLines r \<and> 0 \<le> commentLines r \<and> 0 \<le> codeLines r \<and> 0 \<le> blankLines r"
proof (cases "read_lines fs f")
  case (Inl e)
  with assms show ?thesis by (simp add: count_file_result)
next
  case (Inr ls)
  let ?r = "fst (count_loop f ls)"
  from assms Inr have lc': "lc' = lc\<lparr>fileDatas := fileDatas lc @ [?r]\<rparr>"
    by (simp add: count_file_result split: if_splits)
  have "file ?r = f" by (rule count_loop_file)
  moreover have "totalLines ?r = commentLines ?r + codeLines ?r + blankLines ?r"
    by (rule count_loop_balanced)
  moreover have "0 \<le> totalLines ?r" by (simp add: count_loop_total)
  moreover note count_loop_nonneg [of f ls]
  ultimately show ?thesis using lc' by blast
qed

theorem count_file_record_balanced_witness:
  "count_file fs_code a_py new_counter =
     (None, new_counter\<lparr>fileDatas := [\<lparr>file = a_py, totalLines = 4, commentLines = 0,
                                         codeLines = 2, blankLines = 2\<rparr>]\<rparr>)
   \<and> (\<exists>r. new_counter\<lparr>fileDatas := [\<lparr>file = a_py, totalLines = 4, commentLines = 0,
                                         codeLines = 2, blankLines = 2\<rparr>]\<rparr>
            = new_counter\<lparr>fileDatas := fileDatas new_counter @ [r]\<rparr> \<and> file r = a_py
          \<and> totalLines r = commentLines r + codeLines r + blankLines r
          \<and> 0 \<le> totalLines r \<and> 0 \<le> commentLines r \<and> 0 \<le> codeLines r \<and> 0 \<le> blankLines r)"
proof -
  have h: "count_file fs_code a_py new_counter =
     (None, new_counter\<lparr>fileDatas := [\<lparr>file = a_py, totalLines = 4, commentLines = 0,
                                         codeLines = 2, blankLines = 2\<rparr>]\<rparr>)"
    by (simp add: count_file_result read_lines_fs_code count_loop_fs_code new_counter_def)
  from h count_file_record_balanced [OF h] show ?thesis by simp
qed

lemma read_lines_fs_triple:
  "read_lines fs_triple a_py = Inr [triple_single, py ''inside'', triple_single]"
  by (simp add: read_lines_def fs_triple_def path_defs text_defs)

lemma loop_body_bare_triple:
  "loop_body (fd, m) triple_single =
     (fd\<lparr>totalLines := totalLines fd + 1, commentLines := commentLines fd + 1\<rparr>, m)"
  by (simp add: loop_body_def text_defs)

lemma loop_body_inside:
  "loop_body (fd, False) (py ''inside'') =
     (fd\<lparr>totalLines := totalLines fd + 1, codeLines := codeLines fd + 1\<rparr>, False)"
  by (simp add: loop_body_def text_defs)

text \<open>
  C2. On the file of the three lines triple quote, \<open>inside\<close>, triple quote, the code does
  not do what the claim says: a bare triple quote starts and also ends with the
  delimiter, so it is counted as a comment and leaves the state as it is, and the line
  between the two is counted as code. The call returns normally with the record
  total 3, comment 2, code 1, blank 0.
\<close>

theorem bare_triple_quote_lines_do_not_toggle:
  "read_lines fs_triple a_py = Inr [triple_single, py ''inside'', triple_single]
   \<and> snd (loop_body (new_file_data a_py, False) triple_single) = False
   \<and> count_file fs_triple a_py new_counter =
       (None, new_counter\<lparr>fileDatas := [\<lparr>file = a_py, totalLines = 3, commentLines = 2,
                                           codeLines = 1, blankLines = 0\<rparr>]\<rparr>)"
  by (simp add: count_file_result read_lines_fs_triple count_loop_def loop_body_bare_triple
      loop_body_inside new_file_data_def new_counter_def)

text \<open>
  C3. The body of the loop is the five steps of the specification, tried in their order
  on the stripped line: the line gets the class \<open>spec_classify\<close> gives it, the state
  becomes the one \<open>spec_classify\<close> gives, and the total and the counter of that one class
  grow by one. Hence the total of a file is the number of its lines.
\<close>

theorem loop_body_is_spec_classify:
  "loop_body (fd, m) line =
     (spec_tally (fst (spec_classify m (strip line))) fd, snd (spec_classify m (strip line)))
   \<and> count_loop f ls =
       foldl (\<lambda>st l. (spec_tally (fst (spec_classify (snd st) (strip l))) (fst st),
                       snd (spec_classify (snd st) (strip l))))
         (new_file_data f, False) ls
   \<and> totalLines (fst (count_loop f ls)) = int (length ls)"
proof -
  have step: "loop_body st l =
      (spec_tally (fst (spec_classify (snd st) (strip l))) (fst st),
       snd (spec_classify (snd st) (strip l)))" for st l
    by (simp add: loop_body_def spec_classify_def Let_def)
  have "loop_body = (\<lambda>st l. (spec_tally (fst (spec_classify (snd st) (strip l))) (fst st),
                       snd (spec_classify (snd st) (strip l))))"
    by (intro ext) (rule step)
  then have "count_loop f ls =
       foldl (\<lambda>st l. (spec_tally (fst (spec_classify (snd st) (strip l))) (fst st),
                       snd (spec_classify (snd st) (strip l))))
         (new_file_data f, False) ls"
    by (simp add: count_loop_def)
  with step [of "(fd, m)" line] count_loop_total [of f ls] show ?thesis by simp
qed

theorem loop_body_is_spec_classify_witness:
  "loop_body (new_file_data a_py, False) (py ''   '') =
     (\<lparr>file = a_py, totalLines = 1, commentLines = 0, codeLines = 0, blankLines = 1\<rparr>, False)
   \<and> count_loop a_py [py ''x = 1'', [], py ''   '', py ''y = 2''] =
       (\<lparr>file = a_py, totalLines = 4, commentLines = 0, codeLines = 2, blankLines = 2\<rparr>, False)
   \<and> totalLines (fst (count_loop a_py [py ''x = 1'', [], py ''   '', py ''y = 2''])) = 4"
proof -
  have blank: "spec_classify False (strip (py ''   '')) = (Blank, False)"
    by (simp add: spec_classify_def text_defs)
  have code1: "spec_classify False (strip (py ''x = 1'')) = (Code, False)"
    by (simp add: spec_classify_def text_defs)
  have code2: "spec_classify False (strip (py ''y = 2'')) = (Code, False)"
    by (simp add: spec_classify_def text_defs)
  have empty: "spec_classify False (strip []) = (Blank, False)"
    by (simp add: spec_classify_def text_defs)
  from loop_body_is_spec_classify
    [of "new_file_data a_py" False "py ''   ''" a_py "[py ''x = 1'', [], py ''   '', py ''y = 2'']"]
  show ?thesis
    by (simp add: blank code1 code2 empty new_file_data_def)
qed

lemma startswith_triple_not_hash:
  "startswith s triple_single \<or> startswith s triple_double \<Longrightarrow> \<not> startswith s hash_lit"
  by (cases s) (auto simp: startswith_def hash_lit_def triple_single_def triple_double_def)

lemma strip_docstring_line: "strip docstring_line = docstring_line"
  by (simp add: docstring_line_def text_defs)

lemma read_lines_fs_docstring: "read_lines fs_docstring a_py = Inr [docstring_line]"
  by (simp add: read_lines_def fs_docstring_def docstring_line_def path_defs text_defs)

text \<open>
  C4. A line whose stripped text starts with a triple-quote delimiter and also ends with
  one (either style at either end) is counted as a comment and leaves
  \<open>inMultiLineComment\<close> as it was. The file of the single line
  \<open>docstring\<close> between triple quotes gives the record total 1, comment 1, code 0, blank 0,
  and the state is closed after that line.
\<close>

theorem one_line_block_keeps_state:
  "((startswith (strip line) triple_single \<or> startswith (strip line) triple_double)
      \<and> (endswith (strip line) triple_single \<or> endswith (strip line) triple_double)
     \<longrightarrow> loop_body (fd, m) line =
           (fd\<lparr>totalLines := totalLines fd + 1, commentLines := commentLines fd + 1\<rparr>, m))
   \<and> read_lines fs_docstring a_py = Inr [docstring_line]
   \<and> snd (count_loop a_py [docstring_line]) = False
   \<and> count_file fs_docstring a_py new_counter =
       (None, new_counter\<lparr>fileDatas := [\<lparr>file = a_py, totalLines = 1, commentLines = 1,
                                           codeLines = 0, blankLines = 0\<rparr>]\<rparr>)"
proof -
  have general: "loop_body (fd, m) l =
      (fd\<lparr>totalLines := totalLines fd + 1, commentLines := commentLines fd + 1\<rparr>, m)"
    if "startswith (strip l) triple_single \<or> startswith (strip l) triple_double"
      and "endswith (strip l) triple_single \<or> endswith (strip l) triple_double"
    for fd m l
    using that startswith_triple_not_hash [OF that(1)]
    by (simp add: loop_body_def Let_def)
  have starts: "startswith (strip docstring_line) triple_single"
    by (simp add: strip_docstring_line) (simp add: docstring_line_def text_defs)
  have ends: "endswith (strip docstring_line) triple_single"
    by (simp add: strip_docstring_line) (simp add: docstring_line_def text_defs)
  have one: "loop_body (fd, m) docstring_line =
      (fd\<lparr>totalLines := totalLines fd + 1, commentLines := commentLines fd + 1\<rparr>, m)" for fd m
    using starts ends by (intro general) simp_all
  have loop: "count_loop a_py [docstring_line] =
      (\<lparr>file = a_py, totalLines = 1, commentLines = 1, codeLines = 0, blankLines = 0\<rparr>, False)"
    by (simp add: count_loop_def one new_file_data_def)
  have "count_file fs_docstring a_py new_counter =
       (None, new_counter\<lparr>fileDatas := [\<lparr>file = a_py, totalLines = 1, commentLines = 1,
                                           codeLines = 0, blankLines = 0\<rparr>]\<rparr>)"
    by (simp add: count_file_result read_lines_fs_docstring loop new_counter_def)
  with general [of line fd m] read_lines_fs_docstring loop show ?thesis by simp
qed

theorem one_line_block_keeps_state_witness:
  "(startswith (strip (py ''  '' @ triple_double @ py ''doc'' @ triple_single)) triple_single
      \<or> startswith (strip (py ''  '' @ triple_double @ py ''doc'' @ triple_single)) triple_double)
   \<and> (endswith (strip (py ''  '' @ triple_double @ py ''doc'' @ triple_single)) triple_single
      \<or> endswith (strip (py ''  '' @ triple_double @ py ''doc'' @ triple_single)) triple_double)
   \<and> loop_body (new_file_data a_py, True) (py ''  '' @ triple_double @ py ''doc'' @ triple_single) =
       (\<lparr>file = a_py, totalLines = 1, commentLines = 1, codeLines = 0, blankLines = 0\<rparr>, True)"
proof -
  have s: "startswith (strip (py ''  '' @ triple_double @ py ''doc'' @ triple_single)) triple_double"
    by (simp add: text_defs)
  have e: "endswith (strip (py ''  '' @ triple_double @ py ''doc'' @ triple_single)) triple_single"
    by (simp add: text_defs)
  from one_line_block_keeps_state
    [of "py ''  '' @ triple_double @ py ''doc'' @ triple_single" "new_file_data a_py" True]
  have "loop_body (new_file_data a_py, True) (py ''  '' @ triple_double @ py ''doc'' @ triple_single) =
       ((new_file_data a_py)\<lparr>totalLines := totalLines (new_file_data a_py) + 1,
          commentLines := commentLines (new_file_data a_py) + 1\<rparr>, True)"
    using s e by blast
  then show ?thesis using s e by (simp add: new_file_data_def)
qed

lemma read_lines_fs_open:
  "read_lines fs_open a_py = Inr [triple_single @ py ''abc'', py ''foo'']"
  by (simp add: read_lines_def fs_open_def path_defs text_defs)

lemma count_loop_fs_open:
  "snd (count_loop a_py [triple_single @ py ''abc'', py ''foo''])"
  by (simp add: count_loop_def loop_body_def new_file_data_def text_defs)

text \<open>
  C5. For a file that can be read, \<open>count_file\<close> raises \<open>CommentNotClosedError\<close> naming the
  file exactly when \<open>inMultiLineComment\<close> is true after the last line; and whenever it
  raises that error the line counter is left as it was, so no record of the file is added.
\<close>

theorem comment_not_closed_iff_state_open:
  assumes "fs f = Some (RegularFile (Text s))"
  shows "(fst (count_file fs f lc) = Some (CommentNotClosedError f))
           = snd (count_loop f (splitlines (translate_newlines s)))
         \<and> (\<forall>g. fst (count_file fs f lc) = Some (CommentNotClosedError g)
               \<longrightarrow> g = f \<and> snd (count_file fs f lc) = lc)"
  using assms by (simp add: count_file_result read_lines_text)

theorem comment_not_closed_iff_state_open_witness:
  "fs_open a_py = Some (RegularFile (Text (triple_single @ py ''abc'' @ [LF] @ py ''foo'' @ [LF])))
   \<and> snd (count_loop a_py (splitlines (translate_newlines
           (triple_single @ py ''abc'' @ [LF] @ py ''foo'' @ [LF]))))
   \<and> count_file fs_open a_py new_counter = (Some (CommentNotClosedError a_py), new_counter)"
proof -
  have h: "fs_open a_py
      = Some (RegularFile (Text (triple_single @ py ''abc'' @ [LF] @ py ''foo'' @ [LF])))"
    by (simp add: fs_open_def path_defs py_def)
  have open_state: "snd (count_loop a_py (splitlines (translate_newlines
           (triple_single @ py ''abc'' @ [LF] @ py ''foo'' @ [LF]))))"
    using read_lines_fs_open count_loop_fs_open h by (simp add: read_lines_text)
  from comment_not_closed_iff_state_open
    [of fs_open a_py "triple_single @ py ''abc'' @ [LF] @ py ''foo'' @ [LF]" new_counter]
    h open_state
  have "fst (count_file fs_open a_py new_counter) = Some (CommentNotClosedError a_py)
      \<and> snd (count_file fs_open a_py new_counter) = new_counter"
    by simp
  then have "count_file fs_open a_py new_counter = (Some (CommentNotClosedError a_py), new_counter)"
    by (simp add: prod_eq_iff)
  with h open_state show ?thesis by simp
qed

section \<open>Aggregation of the records\<close>

lemma py_truediv_zero_iff: "(py_truediv a b = Inl ZeroDivisionError) = (b = 0)"
  by (simp add: py_truediv_def)

lemma zero_safe_division_no_zero_error: "zero_safe_division a b \<noteq> Inl ZeroDivisionError"
  by (simp add: zero_safe_division_def py_truediv_zero_iff)

lemma ratio_percent_no_zero_error: "ratio_percent a b \<noteq> Inl ZeroDivisionError"
  using zero_safe_division_no_zero_error [of a b]
  by (cases "zero_safe_division a b") (simp_all add: ratio_percent_def)

lemma ratio_percent_zero: "ratio_percent a 0 = Inr 0"
  by (simp add: ratio_percent_def zero_safe_division_def)

lemma file_summary_no_zero_error: "file_summary fd \<noteq> Inl ZeroDivisionError"
  using ratio_percent_no_zero_error [of "blankLines fd" "codeLines fd"]
    ratio_percent_no_zero_error [of "commentLines fd" "codeLines fd"]
  by (auto simp: file_summary_def split: sum.splits)

lemma print_files_no_zero_error: "print_files fds \<noteq> Inl ZeroDivisionError"
proof (induction fds)
  case Nil
  show ?case by simp
next
  case (Cons fd rest)
  with file_summary_no_zero_error [of fd] show ?case
    by (auto split: sum.splits)
qed

lemma total_summary_no_zero_error: "total_summary fds \<noteq> Inl ZeroDivisionError"
  using ratio_percent_no_zero_error [of "sum_list (map blankLines fds)" "sum_list (map codeLines fds)"]
    ratio_percent_no_zero_error [of "sum_list (map commentLines fds)" "sum_list (map codeLines fds)"]
  by (auto simp: total_summary_def Let_def split: sum.splits)

text \<open>
  C9, as the claim states it, fails: on an empty collection \<open>print_file_data\<close> returns
  after printing that there are no files. It computes no sum and no ratio, so it does not
  give totals and ratios that are zero.
\<close>

theorem print_file_data_empty_gives_no_totals:
  "fileDatas new_counter = []
   \<and> print_file_data new_counter = Inr NoFilesToPrint
   \<and> print_file_data new_counter \<noteq>
       Inr (FileDataPrinted []
             \<lparr>sumTotalLines = 0, sumCommentLines = 0, sumCodeLines = 0, sumBlankLines = 0,
              blankCodeRatio = 0, commentCodeRatio = 0\<rparr>)"
  by (simp add: print_file_data_def new_counter_def)

text \<open>
  C9, amended. On an empty collection \<open>print_file_data\<close> returns without raising, and no
  total or ratio is computed. On every collection it never raises \<open>ZeroDivisionError\<close>:
  \<open>_zero_safe_division\<close> gives zero for every numerator when the denominator is zero, where
  the division itself would raise, and it never raises \<open>ZeroDivisionError\<close>. So the two
  ratios of a file without code lines are zero, and when the code lines of a collection sum
  to zero its totals are the sums of the counts and its two ratios are zero.
\<close>

theorem zero_denominator_gives_zero_ratio:
  "print_file_data (lc\<lparr>fileDatas := []\<rparr>) = Inr NoFilesToPrint
   \<and> print_file_data lc \<noteq> Inl ZeroDivisionError
   \<and> py_truediv n 0 = Inl ZeroDivisionError
   \<and> zero_safe_division n 0 = Inr 0
   \<and> zero_safe_division n d \<noteq> Inl ZeroDivisionError
   \<and> file_summary (fd\<lparr>codeLines := 0\<rparr>) =
       Inr \<lparr>sumTotalLines = totalLines fd, sumCommentLines = commentLines fd,
            sumCodeLines = 0, sumBlankLines = blankLines fd,
            blankCodeRatio = 0, commentCodeRatio = 0\<rparr>
   \<and> (sum_list (map codeLines fds) = 0 \<longrightarrow>
        total_summary fds =
          Inr \<lparr>sumTotalLines = sum_list (map totalLines fds),
               sumCommentLines = sum_list (map commentLines fds),
               sumCodeLines = 0,
               sumBlankLines = sum_list (map blankLines fds),
               blankCodeRatio = 0, commentCodeRatio = 0\<rparr>)"
proof -
  have "print_file_data lc \<noteq> Inl ZeroDivisionError"
    using print_files_no_zero_error [of "fileDatas lc"]
      total_summary_no_zero_error [of "fileDatas lc"]
    by (auto simp: print_file_data_def split: sum.splits)
  moreover have "file_summary (fd\<lparr>codeLines := 0\<rparr>) =
       Inr \<lparr>sumTotalLines = totalLines fd, sumCommentLines = commentLines fd,
            sumCodeLines = 0, sumBlankLines = blankLines fd,
            blankCodeRatio = 0, commentCodeRatio = 0\<rparr>"
    by (simp add: file_summary_def ratio_percent_zero)
  moreover have "total_summary fds =
          Inr \<lparr>sumTotalLines = sum_list (map totalLines fds),
               sumCommentLines = sum_list (map commentLines fds),
               sumCodeLines = 0,
               sumBlankLines = sum_list (map blankLines fds),
               blankCodeRatio = 0, commentCodeRatio = 0\<rparr>"
    if "sum_list (map codeLines fds) = 0"
    using that by (simp add: total_summary_def Let_def ratio_percent_zero)
  ultimately show ?thesis
    by (simp add: print_file_data_def py_truediv_zero_iff zero_safe_division_def
        zero_safe_division_no_zero_error)
qed

theorem zero_denominator_gives_zero_ratio_witness:
  "sum_list (map codeLines [docstring_record]) = 0
   \<and> total_summary [docstring_record] =
       Inr \<lparr>sumTotalLines = 1, sumCommentLines = 1, sumCodeLines = 0, sumBlankLines = 0,
            blankCodeRatio = 0, commentCodeRatio = 0\<rparr>
   \<and> file_summary docstring_record =
       Inr \<lparr>sumTotalLines = 1, sumCommentLines = 1, sumCodeLines = 0, sumBlankLines = 0,
            blankCodeRatio = 0, commentCodeRatio = 0\<rparr>
   \<and> print_file_data (new_counter\<lparr>fileDatas := [docstring_record]\<rparr>) =
       Inr (FileDataPrinted
             [(a_py, \<lparr>sumTotalLines = 1, sumCommentLines = 1, sumCodeLines = 0, sumBlankLines = 0,
                      blankCodeRatio = 0, commentCodeRatio = 0\<rparr>)]
             \<lparr>sumTotalLines = 1, sumCommentLines = 1, sumCodeLines = 0, sumBlankLines = 0,
              blankCodeRatio = 0, commentCodeRatio = 0\<rparr>)"
proof -
  have z: "sum_list (map codeLines [docstring_record]) = 0"
    by (simp add: docstring_record_def)
  have same: "docstring_record\<lparr>codeLines := 0\<rparr> = docstring_record"
    by (simp add: docstring_record_def)
  from zero_denominator_gives_zero_ratio [of new_counter 0 1 docstring_record "[docstring_record]"] z
  have t: "total_summary [docstring_record] =
       Inr \<lparr>sumTotalLines = sum_list (map totalLines [docstring_record]),
            sumCommentLines = sum_list (map commentLines [docstring_record]),
            sumCodeLines = 0,
            sumBlankLines = sum_list (map blankLines [docstring_record]),
            blankCodeRatio = 0, commentCodeRatio = 0\<rparr>"
    and f: "file_summary (docstring_record\<lparr>codeLines := 0\<rparr>) =
       Inr \<lparr>sumTotalLines = totalLines docstring_record,
            sumCommentLines = commentLines docstring_record,
            sumCodeLines = 0, sumBlankLines = blankLines docstring_record,
            blankCodeRatio = 0, commentCodeRatio = 0\<rparr>"
    by blast+
  from t have t': "total_summary [docstring_record] =
       Inr \<lparr>sumTotalLines = 1, sumCommentLines = 1, sumCodeLines = 0, sumBlankLines = 0,
            blankCodeRatio = 0, commentCodeRatio = 0\<rparr>"
    by (simp add: docstring_record_def)
  from f have f': "file_summary docstring_record =
       Inr \<lparr>sumTotalLines = 1, sumCommentLines = 1, sumCodeLines = 0, sumBlankLines = 0,
            blankCodeRatio = 0, commentCodeRatio = 0\<rparr>"
    unfolding same by (simp add: docstring_record_def)
  have "print_file_data (new_counter\<lparr>fileDatas := [docstring_record]\<rparr>) =
       Inr (FileDataPrinted
             [(a_py, \<lparr>sumTotalLines = 1, sumCommentLines = 1, sumCodeLines = 0, sumBlankLines = 0,
                      blankCodeRatio = 0, commentCodeRatio = 0\<rparr>)]
             \<lparr>sumTotalLines = 1, sumCommentLines = 1, sumCodeLines = 0, sumBlankLines = 0,
              blankCodeRatio = 0, commentCodeRatio = 0\<rparr>)"
    by (simp add: print_file_data_def t' f') (simp add: docstring_record_def)
  with z t' f' show ?thesis by blast
qed

section \<open>The default settings\<close>

text \<open>
  C10, as the claim states it, fails: when \<open>os.getcwd()\<close> raises \<open>FileNotFoundError\<close>
  (the working directory has been removed), \<open>get_arbitrary_settings\<close> raises that error,
  which is no \<open>TypeError\<close>.
\<close>

theorem get_arbitrary_settings_raises_getcwd_error:
  "get_arbitrary_settings (Inl (FileNotFoundError [])) = Inl (FileNotFoundError [])
   \<and> \<not> is_TypeError (FileNotFoundError [])"
  by (simp add: get_arbitrary_settings_def)

text \<open>
  C10, amended. No call of \<open>get_arbitrary_settings\<close> returns a settings value. When
  \<open>os.getcwd()\<close> returns, whatever the directory, the call raises \<open>TypeError\<close>: it passes
  four arguments to a constructor of five required fields, and the field left without a
  value is \<open>outputDetail\<close>. When \<open>os.getcwd()\<close> raises, the call raises that error.
\<close>

theorem get_arbitrary_settings_never_returns:
  "get_arbitrary_settings (Inr cwd) = Inl (TypeError [''outputDetail''])
   \<and> is_TypeError (TypeError [''outputDetail''])
   \<and> get_arbitrary_settings (Inl e) = Inl e
   \<and> get_arbitrary_settings getcwd \<noteq> Inr s
   \<and> length Settings_fields = 5"
proof -
  have ok: "get_arbitrary_settings (Inr c) = Inl (TypeError [''outputDetail''])" for c
    by (simp add: get_arbitrary_settings_def dataclass_init_def Settings_fields_def)
  have err: "get_arbitrary_settings (Inl x) = Inl x" for x
    by (simp add: get_arbitrary_settings_def)
  have "get_arbitrary_settings getcwd \<noteq> Inr s"
    by (cases getcwd) (simp_all add: ok err)
  with ok [of cwd] err [of e] show ?thesis
    by (simp add: Settings_fields_def)
qed

theorem get_arbitrary_settings_never_returns_witness:
  "get_arbitrary_settings (Inr proj) = Inl (TypeError [''outputDetail''])
   \<and> get_arbitrary_settings (Inl (PermissionError proj)) = Inl (PermissionError proj)"
  using get_arbitrary_settings_never_returns [of proj "PermissionError proj" "Inr proj" "[]"]
  by blast

section \<open>Counting a batch\<close>

lemma count_file_error_any_counter:
  "fst (count_file fs f lc) = fst (count_file fs f lc0)"
  by (cases "read_lines fs f") (simp_all add: count_file_result)

lemma count_file_error_keeps_counter:
  "fst (count_file fs f lc) = Some e \<Longrightarrow> snd (count_file fs f lc) = lc"
  by (cases "read_lines fs f") (simp_all add: count_file_result split: if_splits)

lemma count_file_ok_appends:
  "fst (count_file fs f lc) = None \<Longrightarrow>
   map file (fileDatas (snd (count_file fs f lc))) = map file (fileDatas lc) @ [f]"
  by (cases "read_lines fs f")
    (simp_all add: count_file_result count_loop_file split: if_splits)

lemma count_files_append:
  "count_files fs (xs @ ys) lc =
     (case count_files fs xs lc of
        (None, lc') \<Rightarrow> count_files fs ys lc'
      | (Some e, lc') \<Rightarrow> (Some e, lc'))"
proof (induction xs arbitrary: lc)
  case Nil
  show ?case by simp
next
  case (Cons x xs)
  show ?case
  proof (cases "exists_path fs x")
    case False
    then show ?thesis by simp
  next
    case True
    obtain r lc1 where c: "count_file fs x lc = (r, lc1)" by (cases "count_file fs x lc")
    show ?thesis
    proof (cases r)
      case None
      with True c Cons.IH [of lc1] show ?thesis by simp
    next
      case (Some e)
      with True c show ?thesis by simp
    qed
  qed
qed

lemma count_files_ok_files:
  "fst (count_files fs xs lc) = None \<Longrightarrow>
   map file (fileDatas (snd (count_files fs xs lc))) = map file (fileDatas lc) @ xs"
proof (induction xs arbitrary: lc)
  case Nil
  show ?case by simp
next
  case (Cons x xs)
  obtain r lc1 where c: "count_file fs x lc = (r, lc1)" by (cases "count_file fs x lc")
  from Cons.prems have ex: "exists_path fs x" by (auto split: if_splits)
  from Cons.prems ex c have r: "r = None" by (cases r) auto
  from Cons.prems ex c r have rest: "fst (count_files fs xs lc1) = None" by simp
  from count_file_ok_appends [of fs x lc] c r
  have "map file (fileDatas lc1) = map file (fileDatas lc) @ [x]" by simp
  with Cons.IH [OF rest] ex c r show ?case by simp
qed

lemma fs_batch_a_exists: "exists_path fs_batch a_py"
  by (simp add: exists_path_def fs_batch_def c_py_def path_defs py_def)

lemma count_file_fs_batch_a:
  "count_file fs_batch a_py new_counter = (None, new_counter\<lparr>fileDatas := [a_py_record]\<rparr>)"
proof -
  have "read_lines fs_batch a_py = Inr [py ''x = 1'', [], py ''   '', py ''y = 2'']"
    by (simp add: read_lines_def fs_batch_def c_py_def path_defs text_defs)
  then show ?thesis
    by (simp add: count_file_result count_loop_fs_code a_py_record_def new_counter_def)
qed

lemma fs_batch_b_missing: "\<not> exists_path fs_batch b_py"
  by (simp add: exists_path_def fs_batch_def c_py_def path_defs py_def)

lemma fs_batch_c_exists: "exists_path fs_batch c_py"
  by (simp add: exists_path_def fs_batch_def c_py_def path_defs py_def)

lemma count_file_fs_batch_c:
  "fst (count_file fs_batch c_py new_counter) = Some (CommentNotClosedError c_py)"
proof -
  have "read_lines fs_batch c_py = Inr [triple_single @ py ''abc'', py ''foo'']"
    by (simp add: read_lines_def fs_batch_def c_py_def path_defs text_defs)
  moreover have "snd (count_loop c_py [triple_single @ py ''abc'', py ''foo''])"
    by (simp add: count_loop_def loop_body_def new_file_data_def text_defs)
  ultimately show ?thesis by (simp add: count_file_result)
qed

text \<open>
  C6, as the claim states it, fails: when the second path of a batch does not exist,
  \<open>count_files\<close> raises \<open>FileNotFoundError\<close> for it, and the record of the first file,
  appended before the failure, is still in the line counter.
\<close>

theorem count_files_failure_keeps_earlier_records:
  "count_files fs_batch [a_py, b_py] new_counter =
     (Some (FileNotFoundError b_py), new_counter\<lparr>fileDatas := [a_py_record]\<rparr>)
   \<and> fileDatas (snd (count_files fs_batch [a_py, b_py] new_counter)) = [a_py_record]
   \<and> fileDatas new_counter = []"
proof -
  have "count_files fs_batch ([a_py] @ [b_py]) new_counter =
     (Some (FileNotFoundError b_py), new_counter\<lparr>fileDatas := [a_py_record]\<rparr>)"
    by (simp add: fs_batch_a_exists count_file_fs_batch_a fs_batch_b_missing)
  then show ?thesis by (simp add: new_counter_def)
qed

text \<open>
  C6, amended. Let the paths before \<open>bad\<close> all be counted without error. If \<open>bad\<close> does
  not exist, \<open>count_files\<close> raises \<open>FileNotFoundError\<close> naming it, without classifying it;
  if it exists and \<open>count_file\<close> raises an error on it (\<open>CommentNotClosedError\<close> among
  them), \<open>count_files\<close> raises that error. In both cases no later path is looked at, and
  the line counter is left holding the records of the paths before \<open>bad\<close>, one for each,
  in order, after those it held before: the earlier work is not rolled back.
\<close>

theorem count_files_aborts_at_first_failure:
  assumes "fst (count_files fs pre lc) = None"
  shows "(\<not> exists_path fs bad \<longrightarrow>
            count_files fs (pre @ bad # post) lc
              = (Some (FileNotFoundError bad), snd (count_files fs pre lc)))
       \<and> (exists_path fs bad \<and> fst (count_file fs bad lc) = Some e \<longrightarrow>
            count_files fs (pre @ bad # post) lc = (Some e, snd (count_files fs pre lc)))
       \<and> map file (fileDatas (snd (count_files fs pre lc))) = map file (fileDatas lc) @ pre"
proof -
  obtain lc1 where pre: "count_files fs pre lc = (None, lc1)"
    using assms by (cases "count_files fs pre lc") simp
  have missing: "count_files fs (pre @ bad # post) lc = (Some (FileNotFoundError bad), lc1)"
    if "\<not> exists_path fs bad"
    using that by (simp add: count_files_append pre)
  have raises: "count_files fs (pre @ bad # post) lc = (Some e, lc1)"
    if ex: "exists_path fs bad" and err: "fst (count_file fs bad lc) = Some e"
  proof -
    from err have e1: "fst (count_file fs bad lc1) = Some e"
      using count_file_error_any_counter [of fs bad lc1 lc] by simp
    with count_file_error_keeps_counter [OF e1]
    have "count_file fs bad lc1 = (Some e, lc1)" by (simp add: prod_eq_iff)
    with ex show ?thesis by (simp add: count_files_append pre)
  qed
  from missing raises count_files_ok_files [OF assms] pre show ?thesis by simp
qed

theorem count_files_aborts_at_first_failure_witness:
  "fst (count_files fs_batch [a_py] new_counter) = None
   \<and> \<not> exists_path fs_batch b_py
   \<and> count_files fs_batch ([a_py] @ b_py # [c_py]) new_counter
       = (Some (FileNotFoundError b_py), new_counter\<lparr>fileDatas := [a_py_record]\<rparr>)
   \<and> exists_path fs_batch c_py
   \<and> fst (count_file fs_batch c_py new_counter) = Some (CommentNotClosedError c_py)
   \<and> count_files fs_batch ([a_py] @ c_py # [a_py]) new_counter
       = (Some (CommentNotClosedError c_py), new_counter\<lparr>fileDatas := [a_py_record]\<rparr>)
   \<and> map file (fileDatas (snd (count_files fs_batch [a_py] new_counter)))
       = map file (fileDatas new_counter) @ [a_py]"
proof -
  have h: "fst (count_files fs_batch [a_py] new_counter) = None"
    by (simp add: fs_batch_a_exists count_file_fs_batch_a)
  from count_files_aborts_at_first_failure [OF h, of b_py "[c_py]" "CommentNotClosedError c_py"]
    count_files_aborts_at_first_failure [OF h, of c_py "[a_py]" "CommentNotClosedError c_py"]
    h fs_batch_b_missing fs_batch_c_exists count_file_fs_batch_c
  show ?thesis
    by (simp add: fs_batch_a_exists count_file_fs_batch_a)
qed

section \<open>Discovery\<close>











section \<open>The lines of a text that ends in a line terminator\<close>

lemma is_linebreak_CR: "is_linebreak CR"
  by (simp add: is_linebreak_def CR_def)

lemma is_linebreak_LF: "is_linebreak LF"
  by (simp add: is_linebreak_def LF_def)

lemma LF_not_CR: "LF \<noteq> CR"
  by (simp add: LF_def CR_def)

lemma splitlines_from_boundary:
  "is_linebreak c \<Longrightarrow> c \<noteq> CR \<Longrightarrow> splitlines_from cur (c # cs) = cur # splitlines_from [] cs"
  by (cases cs) simp_all

lemma splitlines_from_CR_LF:
  "splitlines_from cur (CR # LF # cs) = cur # splitlines_from [] cs"
  by (simp add: is_linebreak_CR)

lemma splitlines_from_CR:
  "cs = [] \<or> hd cs \<noteq> LF \<Longrightarrow> splitlines_from cur (CR # cs) = cur # splitlines_from [] cs"
  by (cases cs) (simp_all add: is_linebreak_CR)

lemma splitlines_from_line:
  "list_all (\<lambda>c. \<not> is_linebreak c) l \<Longrightarrow>
   splitlines_from cur (l @ s) = splitlines_from (cur @ l) s"
  by (induction l arbitrary: cur) simp_all

text \<open>
  The translation of the newlines on reading changes nothing in the lines: a CR LF and a
  lone CR are line boundaries of \<open>splitlines\<close> already.
\<close>

lemma splitlines_from_translate_newlines:
  "splitlines_from cur (translate_newlines s) = splitlines_from cur s"
proof (induction s arbitrary: cur rule: translate_newlines.induct)
  case 1
  show ?case by simp
next
  case (2 c cs)
  show ?case
  proof (cases "c = CR")
    case True
    have after_LF: "splitlines_from cur (LF # r) = cur # splitlines_from [] r" for r
      by (rule splitlines_from_boundary [OF is_linebreak_LF LF_not_CR])
    show ?thesis
    proof (cases cs)
      case Nil
      with True have "translate_newlines (c # cs) = [LF]" by simp
      then have "splitlines_from cur (translate_newlines (c # cs)) = [cur]"
        by (simp only: after_LF) simp
      moreover from True Nil have "splitlines_from cur (c # cs) = [cur]"
        by (simp add: is_linebreak_CR)
      ultimately show ?thesis by simp
    next
      case (Cons d cs')
      show ?thesis
      proof (cases "d = LF")
        case dLF: True
        from "2.IH"(2) [OF True Cons dLF]
        have ih: "splitlines_from [] (translate_newlines cs') = splitlines_from [] cs'" .
        from True Cons dLF have "translate_newlines (c # cs) = LF # translate_newlines cs'"
          by simp
        then have "splitlines_from cur (translate_newlines (c # cs))
            = cur # splitlines_from [] (translate_newlines cs')"
          by (simp only: after_LF)
        moreover from True Cons dLF have "splitlines_from cur (c # cs) = cur # splitlines_from [] cs'"
          by (simp add: is_linebreak_CR)
        ultimately show ?thesis using ih by simp
      next
        case dLF: False
        from "2.IH"(3) [OF True Cons dLF]
        have ih: "splitlines_from [] (translate_newlines cs) = splitlines_from [] cs" .
        from True Cons dLF have "translate_newlines (c # cs) = LF # translate_newlines cs"
          by simp
        then have "splitlines_from cur (translate_newlines (c # cs))
            = cur # splitlines_from [] (translate_newlines cs)"
          by (simp only: after_LF)
        moreover from True Cons dLF have "splitlines_from cur (c # cs) = cur # splitlines_from [] cs"
          by (simp add: is_linebreak_CR)
        ultimately show ?thesis using ih by simp
      qed
    qed
  next
    case False
    from "2.IH"(4) [OF False]
    have ih: "splitlines_from cur' (translate_newlines cs) = splitlines_from cur' cs" for cur' .
    from False have tn: "translate_newlines (c # cs) = c # translate_newlines cs" by simp
    show ?thesis
    proof (cases "is_linebreak c")
      case True
      from splitlines_from_boundary [OF True False] ih show ?thesis
        by (simp only: tn)
    next
      case nb: False
      have "splitlines_from cur (c # r) = splitlines_from (cur @ [c]) r" for r
        using nb by simp
      with ih show ?thesis by (simp only: tn)
    qed
  qed
qed

lemma read_lines_splitlines:
  "fs f = Some (RegularFile (Text s)) \<Longrightarrow> read_lines fs f = Inr (splitlines s)"
  by (simp add: read_lines_def splitlines_def splitlines_from_translate_newlines)

lemma is_terminator_cases:
  assumes "is_terminator t"
  obtains "t = [CR, LF]" | "t = [CR]" | b where "t = [b]" and "is_linebreak b" and "b \<noteq> CR"
proof (cases "t = [CR, LF]")
  case True
  then show ?thesis by (rule that(1))
next
  case False
  with assms obtain b where t: "t = [b]" and b: "is_linebreak b"
    by (cases t) (auto simp: is_terminator_def)
  show ?thesis
  proof (cases "b = CR")
    case True
    with t show ?thesis by (intro that(2)) simp
  next
    case False
    with t b show ?thesis by (intro that(3))
  qed
qed

lemma join_lines_Cons: "join_lines ((l, t) # rest) = l @ t @ join_lines rest"
  by (simp add: join_lines_def)

lemma join_lines_Nil: "join_lines [] = []"
  by (simp add: join_lines_def)

text \<open>What follows a terminated line does not start with LF when the line ends in a lone CR.\<close>

lemma after_CR_not_LF:
  assumes "terminated_lines ((l, [CR]) # rest)" and "r = [] \<or> hd r \<noteq> LF"
  shows "join_lines rest @ r = [] \<or> hd (join_lines rest @ r) \<noteq> LF"
proof (cases rest)
  case Nil
  with assms(2) show ?thesis by (simp add: join_lines_Nil)
next
  case (Cons lt rest')
  obtain l' t' where lt: "lt = (l', t')" by (cases lt)
  from assms(1) Cons lt have l': "list_all (\<lambda>c. \<not> is_linebreak c) l'"
    and t': "is_terminator t'" and no: "\<not> (l' = [] \<and> t' = [LF])"
    by simp_all
  show ?thesis
  proof (cases l')
    case l'_Cons: (Cons a as)
    with l' have "a \<noteq> LF" using is_linebreak_LF by auto
    with Cons lt l'_Cons show ?thesis by (simp add: join_lines_Cons)
  next
    case l'_Nil: Nil
    from t' have "hd t' \<noteq> LF \<and> t' \<noteq> []"
    proof (cases rule: is_terminator_cases)
      case 1
      then show ?thesis using LF_not_CR by simp
    next
      case 2
      then show ?thesis using LF_not_CR by simp
    next
      case (3 b)
      with no l'_Nil show ?thesis by auto
    qed
    with Cons lt l'_Nil show ?thesis by (cases t') (simp_all add: join_lines_Cons)
  qed
qed

lemma splitlines_from_join_lines:
  "terminated_lines lts \<Longrightarrow> r = [] \<or> hd r \<noteq> LF \<Longrightarrow>
   splitlines_from [] (join_lines lts @ r) = map fst lts @ splitlines_from [] r"
proof (induction lts)
  case Nil
  show ?case by (simp add: join_lines_Nil)
next
  case (Cons lt rest)
  obtain l t where lt: "lt = (l, t)" by (cases lt)
  from Cons.prems(1) lt have l: "list_all (\<lambda>c. \<not> is_linebreak c) l"
    and t: "is_terminator t" and rest: "terminated_lines rest"
    by simp_all
  let ?tail = "join_lines rest @ r"
  have ih: "splitlines_from [] ?tail = map fst rest @ splitlines_from [] r"
    by (rule Cons.IH [OF rest Cons.prems(2)])
  have line: "splitlines_from [] (l @ t @ ?tail) = splitlines_from l (t @ ?tail)"
    using splitlines_from_line [OF l, of "[]" "t @ ?tail"] by simp
  have "splitlines_from l (t @ ?tail) = l # splitlines_from [] ?tail"
    using t
  proof (cases rule: is_terminator_cases)
    case 1
    then show ?thesis by (simp add: splitlines_from_CR_LF del: splitlines_from.simps)
  next
    case 2
    with Cons.prems(1) lt have "terminated_lines ((l, [CR]) # rest)" by simp
    from after_CR_not_LF [OF this Cons.prems(2)] 2 show ?thesis
      by (simp add: splitlines_from_CR del: splitlines_from.simps)
  next
    case (3 b)
    then show ?thesis by (simp add: splitlines_from_boundary del: splitlines_from.simps)
  qed
  with line ih lt show ?case by (simp add: join_lines_Cons)
qed

lemma terminated_lines_three_lines: "terminated_lines three_lines"
  by (simp add: three_lines_def is_terminator_def is_linebreak_def py_def LF_def CR_def)

lemma fs_lines_a_py: "fs_lines a_py = Some (RegularFile (Text (join_lines three_lines)))"
  by (simp add: fs_lines_def)

text \<open>
  C8. A text that ends in a line terminator is a sequence of terminated lines. The lines
  that \<open>count_file\<close> reads from a file with such a text are exactly those lines, without
  their terminators: there are as many lines as terminators, and no empty line follows the
  last terminator. So the record is counted from those lines alone and its total is their
  number; and the same text without its final terminator, when its last line is not
  empty, is read as the same lines.
\<close>

theorem final_terminator_adds_no_line:
  assumes "terminated_lines lts" and "fs f = Some (RegularFile (Text (join_lines lts)))"
  shows "read_lines fs f = Inr (map fst lts)
       \<and> count_file fs f lc =
           (if snd (count_loop f (map fst lts)) then (Some (CommentNotClosedError f), lc)
            else (None, lc\<lparr>fileDatas := fileDatas lc @ [fst (count_loop f (map fst lts))]\<rparr>))
       \<and> totalLines (fst (count_loop f (map fst lts))) = int (length lts)
       \<and> (lts \<noteq> [] \<and> fst (last lts) \<noteq> [] \<longrightarrow>
            splitlines (translate_newlines (join_lines (butlast lts) @ fst (last lts)))
              = map fst lts)"
proof -
  have "splitlines_from [] (join_lines lts @ []) = map fst lts @ splitlines_from [] []"
    by (rule splitlines_from_join_lines [OF assms(1)]) simp
  then have split: "splitlines (join_lines lts) = map fst lts"
    by (simp add: splitlines_def)
  from assms(2) have lines: "read_lines fs f = Inr (map fst lts)"
    by (simp add: read_lines_splitlines split)
  have unterminated:
    "splitlines (translate_newlines (join_lines (butlast lts) @ fst (last lts))) = map fst lts"
    if ne: "lts \<noteq> []" and l: "fst (last lts) \<noteq> []"
  proof -
    obtain l t where last: "last lts = (l, t)" by (cases "last lts")
    from ne last have lts: "lts = butlast lts @ [(l, t)]"
      using append_butlast_last_id [of lts] by simp
    have pre: "terminated_lines (butlast lts)" and line: "list_all (\<lambda>c. \<not> is_linebreak c) l"
      using assms(1) lts
    proof (induction lts)
      case Nil
      case 1 then show ?case by simp
      case 2 then show ?case by simp
    next
      case (Cons x xs)
      case 1
      show ?case
      proof (cases xs)
        case Nil
        then show ?thesis by simp
      next
        case xs: (Cons y ys)
        obtain l0 t0 where x: "x = (l0, t0)" by (cases x)
        from xs "1.prems" have "xs = butlast xs @ [(l, t)]" by simp
        with Cons.IH(1) "1.prems"(1) x have "terminated_lines (butlast xs)" by simp
        moreover have "butlast xs = [] \<or> hd (butlast xs) = y"
          using xs by (cases ys) simp_all
        ultimately show ?thesis
          using "1.prems"(1) x xs by (cases "butlast xs") (auto split: list.splits)
      qed
      case 2
      show ?case
      proof (cases xs)
        case Nil
        with "2.prems" show ?thesis by auto
      next
        case xs: (Cons y ys)
        obtain l0 t0 where x: "x = (l0, t0)" by (cases x)
        from xs "2.prems" have "xs = butlast xs @ [(l, t)]" by simp
        with Cons.IH(2) "2.prems"(1) x show ?thesis by simp
      qed
    qed
    from l last have l_ne: "l \<noteq> []" by simp
    with line have "hd l \<noteq> LF" using is_linebreak_LF by (cases l) auto
    then have "splitlines_from [] (join_lines (butlast lts) @ l)
        = map fst (butlast lts) @ splitlines_from [] l"
      by (intro splitlines_from_join_lines [OF pre]) simp
    moreover have "splitlines_from [] l = [l]"
      using splitlines_from_line [OF line, of "[]" "[]"] l_ne by simp
    moreover have "map fst lts = map fst (butlast lts) @ [l]"
      using arg_cong [OF lts, of "map fst"] by simp
    ultimately show ?thesis
      using last by (simp add: splitlines_def splitlines_from_translate_newlines)
  qed
  from lines unterminated show ?thesis
    by (simp add: count_file_result count_loop_total)
qed

theorem final_terminator_adds_no_line_witness:
  "terminated_lines three_lines
   \<and> fs_lines a_py = Some (RegularFile (Text (join_lines three_lines)))
   \<and> join_lines three_lines = py ''a'' @ [LF, CR, LF] @ py ''b'' @ [CR]
   \<and> read_lines fs_lines a_py = Inr [py ''a'', [], py ''b'']
   \<and> totalLines (fst (count_loop a_py (map fst three_lines))) = 3
   \<and> three_lines \<noteq> [] \<and> fst (last three_lines) \<noteq> []
   \<and> splitlines (translate_newlines (join_lines (butlast three_lines) @ fst (last three_lines)))
       = [py ''a'', [], py ''b'']"
proof -
  have m: "map fst three_lines = [py ''a'', [], py ''b'']"
    by (simp add: three_lines_def)
  have j: "join_lines three_lines = py ''a'' @ [LF, CR, LF] @ py ''b'' @ [CR]"
    by (simp add: three_lines_def join_lines_def)
  have ne: "three_lines \<noteq> [] \<and> fst (last three_lines) \<noteq> []"
    by (simp add: three_lines_def py_def)
  from final_terminator_adds_no_line [of three_lines fs_lines a_py new_counter]
    terminated_lines_three_lines fs_lines_a_py ne
  have "read_lines fs_lines a_py = Inr (map fst three_lines)
      \<and> totalLines (fst (count_loop a_py (map fst three_lines))) = int (length three_lines)
      \<and> splitlines (translate_newlines (join_lines (butlast three_lines) @ fst (last three_lines)))
          = map fst three_lines"
    by blast
  moreover have "int (length three_lines) = 3" by (simp add: three_lines_def)
  ultimately show ?thesis
    using terminated_lines_three_lines fs_lines_a_py j ne m by simp
qed

end
